theory Spec2Isabelle
  imports Main
begin

section \<open>Errors\<close>

text \<open>
  A Go \<^verbatim>\<open>error\<close> value is either a plain error carrying its message (\<^verbatim>\<open>errors.New\<close>,
  \<^verbatim>\<open>fmt.Errorf\<close>, the errors of package \<^verbatim>\<open>context\<close>) or an \<^verbatim>\<open>*apperror.AppError\<close> built by
  \<^verbatim>\<open>apperror.NewAppError(status, message, cause)\<close>. The \<^verbatim>\<open>nil\<close> error is \<open>None\<close> of
  \<open>err option\<close>.
\<close>

datatype err =
    ErrorString string
  | AppError int string err

section \<open>Resilient executor (package utils, retry)\<close>

text \<open>
  A \<^verbatim>\<open>float64\<close> value. No floating-point arithmetic is carried out here: a value is a
  literal of the source, the conversion of an integer, or the throughput
  \<^verbatim>\<open>float64(bytes) / duration.Seconds() / 1024 / 1024\<close> of a transfer, kept as a term.
\<close>

datatype f64 = FloatLit string | FloatOfInt int | Throughput int int

text \<open>\<^verbatim>\<open>types.RetryConfig\<close>; \<open>Delay\<close> is a \<^verbatim>\<open>time.Duration\<close> in nanoseconds.\<close>

record RetryConfig =
  MaxAttempts :: int
  Delay :: int
  Backoff :: f64

text \<open>
  \<^verbatim>\<open>RetryResult\<close>. The field \<^verbatim>\<open>Duration\<close> (wall-clock time of the whole call) is read from
  the clock and plays no part in the control flow; it is left out.
\<close>

record RetryResult =
  Success :: bool
  Attempts :: int
  LastError :: "err option"
  TotalDelay :: int

text \<open>
  What the executor observes of the outside world, indexed by the loop counter:
  \<^item> \<open>ctxErr e i\<close>: the value of \<^verbatim>\<open>ctx.Err()\<close> at the top of iteration \<open>i\<close>;
  \<^item> \<open>ctxDone e i\<close>: the outcome of the \<^verbatim>\<open>select\<close> after attempt \<open>i\<close>: \<open>None\<close> when the
    timer fires first, \<open>Some c\<close> when \<^verbatim>\<open>ctx.Done()\<close> wins and \<^verbatim>\<open>ctx.Err()\<close> is \<open>c\<close>;
  \<^item> \<open>delayOf e i\<close>: the duration that \<^verbatim>\<open>calculateDelay(attempt, config.Delay,
    config.Backoff)\<close> returns in iteration \<open>i\<close>. It is computed in \<^verbatim>\<open>float64\<close> from the
    configuration and the clock; the loop only adds it to \<^verbatim>\<open>totalDelay\<close> and waits for it,
    so it is taken as given, with no assumption on its value.
\<close>

record env =
  ctxErr :: "nat \<Rightarrow> err option"
  ctxDone :: "nat \<Rightarrow> err option"
  delayOf :: "nat \<Rightarrow> int"

text \<open>\<^verbatim>\<open>totalDelay += delay\<close> on \<^verbatim>\<open>int64\<close> wraps around.\<close>

definition wrap64 :: "int \<Rightarrow> int" where
  "wrap64 x = (x + 2 ^ 63) mod 2 ^ 64 - 2 ^ 63"

text \<open>
  The loop of \<^verbatim>\<open>RetryWithBackoffWithContext\<close>. The operation \<open>fn\<close> acts on a state \<open>'s\<close> of its
  own and returns \<open>None\<close> for \<^verbatim>\<open>nil\<close>. The loop variables are \<open>attempt\<close>, \<open>lastError\<close> and
  \<open>totalDelay\<close>; the last component of the result counts the invocations of \<open>fn\<close> and is not
  part of the source: it records the call trace for the statements about it.
\<close>

function retry_loop ::
  "env \<Rightarrow> ('s \<Rightarrow> err option \<times> 's) \<Rightarrow> RetryConfig \<Rightarrow> nat \<Rightarrow> err option \<Rightarrow> int \<Rightarrow> 's \<Rightarrow> nat
     \<Rightarrow> RetryResult \<times> 's \<times> nat" where
  "retry_loop e fn config attempt lastError totalDelay s calls =
     (if int attempt < MaxAttempts config then
        (case ctxErr e attempt of
           Some c \<Rightarrow>
             (\<lparr>Success = False, Attempts = int attempt, LastError = Some c,
               TotalDelay = totalDelay\<rparr>, s, calls)
         | None \<Rightarrow>
             (case fn s of
                (None, s') \<Rightarrow>
                  (\<lparr>Success = True, Attempts = int attempt + 1, LastError = None,
                    TotalDelay = totalDelay\<rparr>, s', Suc calls)
              | (Some er, s') \<Rightarrow>
                  (if int attempt < MaxAttempts config - 1 then
                     (let delay = delayOf e attempt;
                          totalDelay' = wrap64 (totalDelay + delay)
                      in (case ctxDone e attempt of
                            Some c \<Rightarrow>
                              (\<lparr>Success = False, Attempts = int attempt + 1, LastError = Some c,
                                TotalDelay = totalDelay'\<rparr>, s', Suc calls)
                          | None \<Rightarrow>
                              retry_loop e fn config (Suc attempt) (Some er) totalDelay' s' (Suc calls)))
                   else retry_loop e fn config (Suc attempt) (Some er) totalDelay s' (Suc calls))))
      else (\<lparr>Success = False, Attempts = MaxAttempts config, LastError = lastError,
              TotalDelay = totalDelay\<rparr>, s, calls))"
  by pat_completeness auto
termination
  by (relation "measure (\<lambda>(e, fn, config, attempt, le, td, s, calls).
                  nat (MaxAttempts config - int attempt))") auto

declare retry_loop.simps [simp del]

text \<open>The configuration used when \<^verbatim>\<open>config == nil\<close>; \<^verbatim>\<open>time.Second\<close> is \<open>10\<^sup>9\<close> ns.\<close>

definition defaultRetryConfig :: RetryConfig where
  "defaultRetryConfig = \<lparr>MaxAttempts = 3, Delay = 1000000000, Backoff = FloatLit ''2.0''\<rparr>"

definition RetryWithBackoffWithContext ::
  "env \<Rightarrow> ('s \<Rightarrow> err option \<times> 's) \<Rightarrow> RetryConfig option \<Rightarrow> 's \<Rightarrow> RetryResult \<times> 's \<times> nat" where
  "RetryWithBackoffWithContext e fn config s =
     retry_loop e fn (case config of None \<Rightarrow> defaultRetryConfig | Some c \<Rightarrow> c) 0 None 0 s 0"

text \<open>
  \<open>op_state fn s j\<close> is the state of the operation after \<open>j\<close> invocations from \<open>s\<close>, and
  \<open>op_result fn s j\<close> what invocation number \<open>j + 1\<close> returns.
\<close>

fun op_state :: "('s \<Rightarrow> err option \<times> 's) \<Rightarrow> 's \<Rightarrow> nat \<Rightarrow> 's" where
  "op_state fn s 0 = s"
| "op_state fn s (Suc j) = snd (fn (op_state fn s j))"

definition op_result :: "('s \<Rightarrow> err option \<times> 's) \<Rightarrow> 's \<Rightarrow> nat \<Rightarrow> err option" where
  "op_result fn s j = fst (fn (op_state fn s j))"

text \<open>A context that is never cancelled, such as \<^verbatim>\<open>context.Background()\<close>.\<close>

definition never_cancelled :: "env \<Rightarrow> bool" where
  "never_cancelled e \<longleftrightarrow> (\<forall>i. ctxErr e i = None) \<and> (\<forall>i. ctxDone e i = None)"

text \<open>
  The run gets to the top of iteration \<open>a\<close>: before it, no cancellation was observed, every
  attempt failed and every wait ran to its end.
\<close>

definition reaches :: "env \<Rightarrow> ('s \<Rightarrow> err option \<times> 's) \<Rightarrow> 's \<Rightarrow> nat \<Rightarrow> bool" where
  "reaches e fn s a \<longleftrightarrow>
     (\<forall>j<a. ctxErr e j = None \<and> op_result fn s j \<noteq> None \<and> ctxDone e j = None)"

text \<open>Concrete contexts, operations and configurations.\<close>

definition background :: env where
  "background = \<lparr>ctxErr = (\<lambda>_. None), ctxDone = (\<lambda>_. None),
                  delayOf = (\<lambda>_. 1000)\<rparr>"


definition cancelled_in_wait :: env where
  "cancelled_in_wait = \<lparr>ctxErr = (\<lambda>_. None),
                         ctxDone = (\<lambda>_. Some (ErrorString ''context deadline exceeded'')),
                         delayOf = (\<lambda>_. 1000)\<rparr>"

definition cancelled_later :: env where
  "cancelled_later =
     \<lparr>ctxErr = (\<lambda>i. if 2 \<le> i then Some (ErrorString ''context canceled'') else None),
      ctxDone = (\<lambda>i. if 1 \<le> i then Some (ErrorString ''context canceled'') else None),
      delayOf = (\<lambda>_. 1000)\<rparr>"

definition always_fails :: "nat \<Rightarrow> err option \<times> nat" where
  "always_fails s = (Some (ErrorString ''connection refused''), Suc s)"

definition fails_once :: "nat \<Rightarrow> err option \<times> nat" where
  "fails_once s = (if s = 0 then Some (ErrorString ''connection reset'') else None, Suc s)"

definition three_attempts :: RetryConfig where
  "three_attempts = \<lparr>MaxAttempts = 3, Delay = 1000, Backoff = FloatLit ''2.0''\<rparr>"


section \<open>Configuration (package config)\<close>

text \<open>The fields of \<^verbatim>\<open>RustFSConfig\<close> that the decorator reads.\<close>

record RustFSConfig =
  BucketName :: string
  Timeout :: int
  MaxFileSize :: int
  AllowedTypes :: "string list"

text \<open>\<^verbatim>\<open>strings.HasPrefix\<close>, \<^verbatim>\<open>strings.HasSuffix\<close> and \<^verbatim>\<open>strings.TrimSuffix\<close>.\<close>

definition HasPrefix :: "string \<Rightarrow> string \<Rightarrow> bool" where
  "HasPrefix s p \<longleftrightarrow> length p \<le> length s \<and> take (length p) s = p"

definition HasSuffix :: "string \<Rightarrow> string \<Rightarrow> bool" where
  "HasSuffix s x \<longleftrightarrow> length x \<le> length s \<and> drop (length s - length x) s = x"

definition TrimSuffix :: "string \<Rightarrow> string \<Rightarrow> string" where
  "TrimSuffix s x = (if HasSuffix s x then take (length s - length x) s else s)"

definition matchContentType :: "string \<Rightarrow> string \<Rightarrow> bool" where
  "matchContentType pattern contentType =
     (if pattern = contentType then True
      else if HasSuffix pattern ''/*''
           then HasPrefix contentType (TrimSuffix pattern ''/*'' @ ''/'')
           else False)"

fun allowed_loop :: "string list \<Rightarrow> string \<Rightarrow> bool" where
  "allowed_loop [] contentType = False"
| "allowed_loop (allowedType # rest) contentType =
     (if matchContentType allowedType contentType then True else allowed_loop rest contentType)"

definition IsAllowedType :: "RustFSConfig \<Rightarrow> string \<Rightarrow> bool" where
  "IsAllowedType cfg contentType = allowed_loop (AllowedTypes cfg) contentType"

text \<open>
  The match as the specification words it: the pattern is the content type itself, or it is
  \<open>t/*\<close> and the content type starts with \<open>t/\<close>.
\<close>

definition spec_match :: "string \<Rightarrow> string \<Rightarrow> bool" where
  "spec_match pattern contentType \<longleftrightarrow>
     pattern = contentType
     \<or> (\<exists>t rest. pattern = t @ ''/*'' \<and> contentType = t @ ''/'' @ rest)"

section \<open>File names (package utils, file utilities)\<close>

text \<open>
  \<^verbatim>\<open>filepath.Ext\<close>: scanning from the end, the suffix from the last dot of the last path
  element, empty when a separator comes first or there is no dot.
\<close>

fun ext_scan :: "string \<Rightarrow> string \<Rightarrow> string" where
  "ext_scan [] acc = []"
| "ext_scan (c # cs) acc =
     (if c = CHR ''/'' then []
      else if c = CHR ''.'' then c # acc
      else ext_scan cs (c # acc))"

definition filepath_Ext :: "string \<Rightarrow> string" where
  "filepath_Ext path = ext_scan (rev path) []"

text \<open>
  \<^verbatim>\<open>strings.ToUpper\<close> on the ASCII letters. Other characters are left as they are: the
  result is only compared with names made of the letters A, C, L, M, N, O, P, R, T, U, X and
  digits, which no character outside \<open>a\<close>..\<open>z\<close> is mapped to.
\<close>

definition to_upper_char :: "char \<Rightarrow> char" where
  "to_upper_char c =
     (case map_of (zip ''abcdefghijklmnopqrstuvwxyz'' ''ABCDEFGHIJKLMNOPQRSTUVWXYZ'') c of
        Some u \<Rightarrow> u
      | None \<Rightarrow> c)"

definition ToUpper :: "string \<Rightarrow> string" where
  "ToUpper s = map to_upper_char s"

definition invalidChars :: "char list" where
  "invalidChars = [CHR ''/'', CHR 0x5C, CHR '':'', CHR ''*'', CHR ''?'', CHR 0x22,
                   CHR ''<'', CHR ''>'', CHR ''|'']"

definition reservedNames :: "string list" where
  "reservedNames =
     [''CON'', ''PRN'', ''AUX'', ''NUL'',
      ''COM1'', ''COM2'', ''COM3'', ''COM4'', ''COM5'', ''COM6'', ''COM7'', ''COM8'', ''COM9'',
      ''LPT1'', ''LPT2'', ''LPT3'', ''LPT4'', ''LPT5'', ''LPT6'', ''LPT7'', ''LPT8'', ''LPT9'']"

definition IsValidFilename :: "string \<Rightarrow> bool" where
  "IsValidFilename filename =
     (if filename = [] then False
      else if list_ex (\<lambda>ch. ch \<in> set filename) invalidChars then False
      else let baseName = ToUpper (TrimSuffix filename (filepath_Ext filename))
           in \<not> list_ex (\<lambda>reserved. baseName = reserved) reservedNames)"

section \<open>Values, requests and audit events\<close>

text \<open>
  Decimal rendering of an integer, as \<^verbatim>\<open>%d\<close> of \<^verbatim>\<open>fmt\<close> prints it.
\<close>

definition digit_char :: "nat \<Rightarrow> char" where
  "digit_char d = ''0123456789'' ! d"

function show_nat :: "nat \<Rightarrow> string" where
  "show_nat n = (if n < 10 then [digit_char n] else show_nat (n div 10) @ [digit_char (n mod 10)])"
  by pat_completeness auto
termination
  by (relation "measure id") auto

declare show_nat.simps [simp del]

definition show_int :: "int \<Rightarrow> string" where
  "show_int i = (if i < 0 then CHR ''-'' # show_nat (nat (- i)) else show_nat (nat i))"

text \<open>
  A Go string that is either known or the result of \<^verbatim>\<open>err.Error()\<close>; the rendering of an
  \<^verbatim>\<open>*apperror.AppError\<close> belongs to another module and stays symbolic.
\<close>

datatype gostring = Lit string | ErrorOf err

fun error_text :: "err \<Rightarrow> gostring" where
  "error_text (ErrorString m) = Lit m"
| "error_text (AppError st m cause) = ErrorOf (AppError st m cause)"

text \<open>
  A value of type \<^verbatim>\<open>interface{}\<close> stored in a metadata map. \<open>VDurationString d\<close> is
  \<^verbatim>\<open>d.String()\<close> for a duration of \<open>d\<close> ns and \<open>VTimeRFC3339 t\<close> the time \<open>t\<close> formatted
  by \<^verbatim>\<open>time.RFC3339\<close>.
\<close>

datatype val =
    VText gostring
  | VInt int
  | VFloat f64
  | VDurationString int
  | VTimeRFC3339 int
  | VMap "string \<Rightarrow> val option"

type_synonym meta = "string \<Rightarrow> val option"

text \<open>A value stored in a \<^verbatim>\<open>context.Context\<close>; \<open>ctx k\<close> is \<^verbatim>\<open>ctx.Value(k)\<close>.\<close>

datatype ctxval = CString string | CInt int | COther

type_synonym ctx_values = "string \<Rightarrow> ctxval option"

text \<open>
  \<^verbatim>\<open>types.UploadRequest\<close>; the reader \<^verbatim>\<open>File\<close> is handed to the backend untouched and is
  left out. \<open>Metadata = None\<close> is the \<^verbatim>\<open>nil\<close> map.
\<close>

record UploadRequest =
  Filename :: string
  ContentType :: string
  FileSize :: int
  BucketPath :: string
  Metadata :: "meta option"

text \<open>
  \<^verbatim>\<open>types.UploadResponse\<close> and \<^verbatim>\<open>types.FileInfo\<close>; a \<^verbatim>\<open>time.Time\<close> is its reading in
  nanoseconds.
\<close>

record UploadResponse =
  Path :: string
  URL :: string
  Size :: int
  r_ContentType :: string
  ETag :: string
  r_LastModified :: int
  r_Metadata :: "meta option"

record FileInfo =
  fi_Path :: string
  fi_Size :: int
  fi_ContentType :: string
  fi_ETag :: string
  fi_LastModified :: int
  fi_Metadata :: "meta option"

text \<open>\<^verbatim>\<open>audittypes.AuditEvent\<close>, as far as the logger fills it.\<close>

record AuditEvent =
  EventType :: string
  UserID :: string
  Resource :: string
  ResourceID :: string
  EventSuccess :: bool
  Reason :: gostring
  EventMetadata :: meta

text \<open>\<^verbatim>\<open>FileOperationMetadata\<close>; a time field is \<open>None\<close> for the empty string.\<close>

record FileOperationMetadata =
  m_Filename :: string
  m_FileSize :: int
  m_ContentType :: string
  m_FilePath :: string
  m_BucketName :: string
  m_UploadTime :: "int option"
  m_DownloadTime :: "int option"
  m_AccessTime :: "int option"
  m_UserAgent :: string
  m_IPAddress :: string
  m_ETag :: string
  m_Checksum :: string
  m_Additional :: "meta option"

record StorageErrorMetadata =
  se_Operation :: string
  se_ErrorCode :: string
  se_ErrorMessage :: gostring
  se_RetryCount :: int
  se_Duration :: int
  se_Context :: "meta option"

record PerformanceEventMetadata =
  pe_Operation :: string
  pe_Duration :: int
  pe_FileSize :: int
  pe_Throughput :: f64
  pe_Concurrency :: int
  pe_ResourceUsage :: string
  pe_Threshold :: f64
  pe_Additional :: "meta option"

section \<open>Backend, audit sink and world\<close>

text \<open>
  The wrapped \<^verbatim>\<open>FileStorage\<close> acts on a state \<open>'b\<close> of its own. \<open>UploadFile\<close> and
  \<open>GetFileInfo\<close> return Go's pair of a pointer and an error. \<open>CheckHealth\<close> is \<open>Some h\<close>
  when the dynamic type of the backend has that method.
\<close>

record 'b FileStorage =
  UploadFile :: "UploadRequest \<Rightarrow> 'b \<Rightarrow> (UploadResponse option \<times> err option) \<times> 'b"
  DeleteFile :: "string \<Rightarrow> 'b \<Rightarrow> err option \<times> 'b"
  GetFileURL :: "string \<Rightarrow> string"
  GetFileInfo :: "string \<Rightarrow> 'b \<Rightarrow> (FileInfo option \<times> err option) \<times> 'b"
  CheckHealth :: "('b \<Rightarrow> err option \<times> 'b) option"

datatype call =
    CallUploadFile UploadRequest
  | CallDeleteFile string
  | CallGetFileInfo string
  | CallCheckHealth

text \<open>
  The world a decorator call runs in: the backend's state, the trace of backend
  invocations and the events the audit sink has received, oldest first.
\<close>

record 'b world =
  w_backend :: 'b
  w_calls :: "call list"
  w_events :: "AuditEvent list"

text \<open>
  \<^verbatim>\<open>RustFSAuditLogger\<close>: \<open>hasSink\<close> says that its \<^verbatim>\<open>auditLogger\<close> is not \<^verbatim>\<open>nil\<close>.
\<close>

record RustFSAuditLogger =
  hasSink :: bool
  l_service :: string
  l_config :: "meta option"

text \<open>\<^verbatim>\<open>AuditableRustFSClient\<close>; \<open>c_auditLogger = None\<close> is the \<^verbatim>\<open>nil\<close> pointer.\<close>

record 'b AuditableRustFSClient =
  c_client :: "'b FileStorage"
  c_auditLogger :: "RustFSAuditLogger option"
  c_config :: RustFSConfig
  c_service :: string

text \<open>The readings of \<^verbatim>\<open>time.Now()\<close> during one decorator call, in nanoseconds.\<close>

record clock =
  startTime :: int
  metaTime :: int
  afterCall :: int
  logTime :: int

text \<open>A call returns a value or panics (a \<^verbatim>\<open>nil\<close> dereference, a write to a \<^verbatim>\<open>nil\<close> map).\<close>

datatype 'a outcome = Panic | Returned 'a

fun and_then :: "unit outcome \<times> 'w \<Rightarrow> ('w \<Rightarrow> 'a outcome \<times> 'w) \<Rightarrow> 'a outcome \<times> 'w" where
  "and_then (Panic, w) k = (Panic, w)"
| "and_then (Returned u, w) k = k w"

section \<open>The audit logger (package audit)\<close>

definition logEvent :: "RustFSAuditLogger \<Rightarrow> AuditEvent \<Rightarrow> 'b world \<Rightarrow> 'b world" where
  "logEvent l event w = (if hasSink l then w\<lparr>w_events := w_events w @ [event]\<rparr> else w)"

definition put_if :: "bool \<Rightarrow> string \<Rightarrow> val \<Rightarrow> meta \<Rightarrow> meta" where
  "put_if b k v m = (if b then m(k \<mapsto> v) else m)"

definition put_time :: "int option \<Rightarrow> string \<Rightarrow> meta \<Rightarrow> meta" where
  "put_time t k m = (case t of None \<Rightarrow> m | Some x \<Rightarrow> m(k \<mapsto> VTimeRFC3339 x))"

definition add_all :: "meta option \<Rightarrow> meta \<Rightarrow> meta" where
  "add_all extra m = (case extra of None \<Rightarrow> m | Some x \<Rightarrow> m ++ x)"

definition add_config :: "RustFSAuditLogger \<Rightarrow> meta \<Rightarrow> meta" where
  "add_config l m = (case l_config l of None \<Rightarrow> m | Some cfg \<Rightarrow> m(''config'' \<mapsto> VMap cfg))"

text \<open>
  \<^verbatim>\<open>buildFileMetadata\<close> for a metadata pointer that is not \<^verbatim>\<open>nil\<close>, as at every call
  of the decorator: the entries are written in the order of the source, so the
  \<^verbatim>\<open>Additional\<close> entries and then \<open>config\<close> overwrite earlier keys.
\<close>

definition buildFileMetadata :: "RustFSAuditLogger \<Rightarrow> FileOperationMetadata \<Rightarrow> meta" where
  "buildFileMetadata l md =
     (add_config l \<circ> add_all (m_Additional md)
      \<circ> put_if (m_Checksum md \<noteq> []) ''checksum'' (VText (Lit (m_Checksum md)))
      \<circ> put_if (m_ETag md \<noteq> []) ''etag'' (VText (Lit (m_ETag md)))
      \<circ> put_if (m_IPAddress md \<noteq> []) ''ip_address'' (VText (Lit (m_IPAddress md)))
      \<circ> put_if (m_UserAgent md \<noteq> []) ''user_agent'' (VText (Lit (m_UserAgent md)))
      \<circ> put_time (m_AccessTime md) ''access_time''
      \<circ> put_time (m_DownloadTime md) ''download_time''
      \<circ> put_time (m_UploadTime md) ''upload_time''
      \<circ> put_if (m_BucketName md \<noteq> []) ''bucket_name'' (VText (Lit (m_BucketName md)))
      \<circ> put_if (m_FilePath md \<noteq> []) ''file_path'' (VText (Lit (m_FilePath md)))
      \<circ> put_if (m_ContentType md \<noteq> []) ''content_type'' (VText (Lit (m_ContentType md)))
      \<circ> put_if (0 < m_FileSize md) ''file_size'' (VInt (m_FileSize md))
      \<circ> put_if (m_Filename md \<noteq> []) ''file_name'' (VText (Lit (m_Filename md))))
       [''service'' \<mapsto> VText (Lit (l_service l))]"

definition getReason :: "bool \<Rightarrow> err option \<Rightarrow> gostring" where
  "getReason success er =
     (if success then Lit ''Operation completed successfully''
      else (case er of Some x \<Rightarrow> error_text x | None \<Rightarrow> Lit ''Operation failed''))"

text \<open>
  The three file events differ in the event kind, the kind used on failure, the
  \<^verbatim>\<open>error_type\<close> and the resource identifier. On a \<^verbatim>\<open>nil\<close> logger each of them panics when
  it reads \<^verbatim>\<open>l.service\<close>.
\<close>

definition log_file_event ::
  "string \<Rightarrow> string \<Rightarrow> string \<Rightarrow> RustFSAuditLogger option \<Rightarrow> string \<Rightarrow> string
     \<Rightarrow> FileOperationMetadata \<Rightarrow> err option \<Rightarrow> 'b world \<Rightarrow> unit outcome \<times> 'b world" where
  "log_file_event okType failType errorType lg userID resourceID md er w =
     (case lg of
        None \<Rightarrow> (Panic, w)
      | Some l \<Rightarrow>
          (let success = (er = None);
               auditMetadata = buildFileMetadata l md;
               eventType = (if er \<noteq> None then failType else okType);
               auditMetadata = (case er of
                    None \<Rightarrow> auditMetadata
                  | Some x \<Rightarrow> auditMetadata(''error'' \<mapsto> VText (error_text x),
                                              ''error_type'' \<mapsto> VText (Lit errorType)));
               event = \<lparr>EventType = eventType, UserID = userID, Resource = ''file'',
                         ResourceID = resourceID, EventSuccess = success,
                         Reason = getReason success er, EventMetadata = auditMetadata\<rparr>
           in (Returned (), logEvent l event w)))"

definition LogFileUpload ::
  "RustFSAuditLogger option \<Rightarrow> string \<Rightarrow> FileOperationMetadata \<Rightarrow> err option \<Rightarrow> 'b world
     \<Rightarrow> unit outcome \<times> 'b world" where
  "LogFileUpload lg userID md er w =
     log_file_event ''file_uploaded'' ''storage_error'' ''upload_failed'' lg userID (m_FilePath md) md er w"

definition LogFileDelete ::
  "RustFSAuditLogger option \<Rightarrow> string \<Rightarrow> string \<Rightarrow> FileOperationMetadata \<Rightarrow> err option \<Rightarrow> 'b world
     \<Rightarrow> unit outcome \<times> 'b world" where
  "LogFileDelete lg userID filePath md er w =
     log_file_event ''file_deleted'' ''storage_error'' ''delete_failed'' lg userID filePath md er w"

definition LogFileAccess ::
  "RustFSAuditLogger option \<Rightarrow> string \<Rightarrow> string \<Rightarrow> FileOperationMetadata \<Rightarrow> err option \<Rightarrow> 'b world
     \<Rightarrow> unit outcome \<times> 'b world" where
  "LogFileAccess lg userID filePath md er w =
     log_file_event ''file_accessed'' ''storage_access_denied'' ''access_denied'' lg userID filePath md er w"

definition LogStorageError ::
  "RustFSAuditLogger option \<Rightarrow> string \<Rightarrow> string \<Rightarrow> StorageErrorMetadata \<Rightarrow> 'b world
     \<Rightarrow> unit outcome \<times> 'b world" where
  "LogStorageError lg userID operation md w =
     (case lg of
        None \<Rightarrow> (Panic, w)
      | Some l \<Rightarrow>
          (let auditMetadata =
                 [''operation'' \<mapsto> VText (Lit (se_Operation md)),
                  ''error_code'' \<mapsto> VText (Lit (se_ErrorCode md)),
                  ''error_message'' \<mapsto> VText (se_ErrorMessage md),
                  ''retry_count'' \<mapsto> VInt (se_RetryCount md),
                  ''duration'' \<mapsto> VDurationString (se_Duration md),
                  ''service'' \<mapsto> VText (Lit (l_service l))];
               auditMetadata = add_all (se_Context md) auditMetadata;
               auditMetadata = add_config l auditMetadata;
               event = \<lparr>EventType = ''storage_error'', UserID = userID, Resource = ''storage'',
                         ResourceID = [], EventSuccess = False,
                         Reason = se_ErrorMessage md, EventMetadata = auditMetadata\<rparr>
           in (Returned (), logEvent l event w)))"

definition LogPerformanceEvent ::
  "RustFSAuditLogger option \<Rightarrow> string \<Rightarrow> string \<Rightarrow> PerformanceEventMetadata \<Rightarrow> 'b world
     \<Rightarrow> unit outcome \<times> 'b world" where
  "LogPerformanceEvent lg userID eventType md w =
     (case lg of
        None \<Rightarrow> (Panic, w)
      | Some l \<Rightarrow>
          (let auditMetadata =
                 [''operation'' \<mapsto> VText (Lit (pe_Operation md)),
                  ''duration'' \<mapsto> VDurationString (pe_Duration md),
                  ''file_size'' \<mapsto> VInt (pe_FileSize md),
                  ''throughput'' \<mapsto> VFloat (pe_Throughput md),
                  ''concurrency'' \<mapsto> VInt (pe_Concurrency md),
                  ''resource_usage'' \<mapsto> VText (Lit (pe_ResourceUsage md)),
                  ''threshold'' \<mapsto> VFloat (pe_Threshold md),
                  ''service'' \<mapsto> VText (Lit (l_service l))];
               auditMetadata = add_all (pe_Additional md) auditMetadata;
               event = \<lparr>EventType = eventType, UserID = userID, Resource = ''storage'',
                         ResourceID = [], EventSuccess = True,
                         Reason = Lit [], EventMetadata = auditMetadata\<rparr>
           in (Returned (), logEvent l event w)))"


section \<open>The auditable decorator (package client)\<close>

text \<open>
  The request pointer and the client's configuration pointer are taken to be set; the
  audit logger pointer may be \<^verbatim>\<open>nil\<close>. The context is handed to the backend and to the
  sink untouched; only \<^verbatim>\<open>extractUserID\<close> reads it.
\<close>

text \<open>Go's integer division truncates towards zero (used with positive divisors only).\<close>

definition go_quot :: "int \<Rightarrow> int \<Rightarrow> int" where
  "go_quot a b = (if 0 \<le> a then a div b else - ((- a) div b))"

text \<open>\<^verbatim>\<open>Duration.Milliseconds\<close>.\<close>

definition Milliseconds :: "int \<Rightarrow> int" where
  "Milliseconds d = go_quot d 1000000"

definition validateUploadRequest :: "RustFSConfig \<Rightarrow> UploadRequest \<Rightarrow> err option" where
  "validateUploadRequest cfg req =
     (if FileSize req > MaxFileSize cfg then
        Some (ErrorString (''file size '' @ show_int (FileSize req)
                @ '' exceeds maximum allowed size '' @ show_int (MaxFileSize cfg)))
      else if \<not> IsAllowedType cfg (ContentType req) then
        Some (ErrorString (''content type '' @ ContentType req @ '' is not allowed''))
      else if \<not> IsValidFilename (Filename req) then
        Some (ErrorString (''filename '' @ Filename req @ '' is not valid''))
      else None)"

fun wrapError :: "err \<Rightarrow> string \<Rightarrow> err" where
  "wrapError (AppError st m cause) code = AppError st m cause"
| "wrapError (ErrorString m) code =
     AppError 500 (''RustFS operation failed: '' @ code) (ErrorString m)"

text \<open>
  \<^verbatim>\<open>calculateThroughput\<close>: \<^verbatim>\<open>duration.Seconds()\<close> is zero for the zero duration only.
\<close>

definition calculateThroughput :: "int \<Rightarrow> int \<Rightarrow> f64" where
  "calculateThroughput bytes duration =
     (if duration = 0 then FloatLit ''0'' else Throughput bytes duration)"

definition extractUserID :: "ctx_values \<Rightarrow> string" where
  "extractUserID ctx =
     (case ctx ''user_id'' of
        Some (CString ident) \<Rightarrow> ident
      | _ \<Rightarrow> ''system'')"

definition logUploadError ::
  "'b AuditableRustFSClient \<Rightarrow> clock \<Rightarrow> string \<Rightarrow> FileOperationMetadata \<Rightarrow> err \<Rightarrow> 'b world
     \<Rightarrow> unit outcome \<times> 'b world" where
  "logUploadError c clk userID md er w =
     LogStorageError (c_auditLogger c) userID ''upload''
       \<lparr>se_Operation = ''upload'', se_ErrorCode = ''UPLOAD_ERROR'',
        se_ErrorMessage = error_text er, se_RetryCount = 0,
        se_Duration = logTime clk - startTime clk,
        se_Context = Some [''file_name'' \<mapsto> VText (Lit (m_Filename md)),
                           ''file_size'' \<mapsto> VInt (m_FileSize md),
                           ''content_type'' \<mapsto> VText (Lit (m_ContentType md)),
                           ''bucket_path'' \<mapsto> VText (Lit (m_FilePath md))]\<rparr> w"

text \<open>
  \<^verbatim>\<open>logUploadSuccess\<close> reads \<^verbatim>\<open>result.ETag\<close> and writes two keys into
  \<^verbatim>\<open>metadata.Additional\<close>: a \<^verbatim>\<open>nil\<close> result and a \<^verbatim>\<open>nil\<close> map both panic.
\<close>

definition logUploadSuccess ::
  "'b AuditableRustFSClient \<Rightarrow> clock \<Rightarrow> string \<Rightarrow> FileOperationMetadata \<Rightarrow> UploadResponse option
     \<Rightarrow> int \<Rightarrow> 'b world \<Rightarrow> unit outcome \<times> 'b world" where
  "logUploadSuccess c clk userID md result duration w =
     (case result of
        None \<Rightarrow> (Panic, w)
      | Some res \<Rightarrow>
          (case m_Additional md of
             None \<Rightarrow> (Panic, w)
           | Some extra \<Rightarrow>
               LogFileUpload (c_auditLogger c) userID
                 (md\<lparr>m_ETag := ETag res, m_UploadTime := Some (logTime clk),
                     m_Additional := Some (extra(''upload_duration'' \<mapsto> VDurationString duration,
                        ''upload_speed'' \<mapsto> VFloat (calculateThroughput (Size res) duration)))\<rparr>)
                 None w))"

definition empty_metadata :: FileOperationMetadata where
  "empty_metadata =
     \<lparr>m_Filename = [], m_FileSize = 0, m_ContentType = [], m_FilePath = [], m_BucketName = [],
      m_UploadTime = None, m_DownloadTime = None, m_AccessTime = None, m_UserAgent = [],
      m_IPAddress = [], m_ETag = [], m_Checksum = [], m_Additional = None\<rparr>"

definition UploadFileWithAudit ::
  "'b AuditableRustFSClient \<Rightarrow> clock \<Rightarrow> UploadRequest \<Rightarrow> string \<Rightarrow> 'b world
     \<Rightarrow> (err + UploadResponse) outcome \<times> 'b world" where
  "UploadFileWithAudit c clk req userID w =
     (let preUploadMetadata = empty_metadata
            \<lparr>m_Filename := Filename req, m_FileSize := FileSize req,
             m_ContentType := ContentType req, m_FilePath := BucketPath req,
             m_BucketName := BucketName (c_config c), m_Additional := Metadata req\<rparr>
      in case validateUploadRequest (c_config c) req of
           Some er \<Rightarrow>
             and_then (logUploadError c clk userID preUploadMetadata er w)
               (\<lambda>w'. (Returned (Inl (wrapError er ''VALIDATION_ERROR'')), w'))
         | None \<Rightarrow>
             (case UploadFile (c_client c) req (w_backend w) of
                ((result, er), b') \<Rightarrow>
                  (let w1 = w\<lparr>w_backend := b', w_calls := w_calls w @ [CallUploadFile req]\<rparr>;
                       duration = afterCall clk - startTime clk
                   in case er of
                        Some x \<Rightarrow>
                          and_then (logUploadError c clk userID preUploadMetadata x w1)
                            (\<lambda>w'. (Returned (Inl (wrapError x ''UPLOAD_FAILED'')), w'))
                      | None \<Rightarrow>
                          and_then (logUploadSuccess c clk userID preUploadMetadata result duration w1)
                            (\<lambda>w2. case result of
                                None \<Rightarrow> (Panic, w2)
                              | Some res \<Rightarrow>
                                  (if duration > Timeout (c_config c) then
                                     and_then
                                       (LogPerformanceEvent (c_auditLogger c) userID ''upload_slow''
                                          \<lparr>pe_Operation = ''upload'', pe_Duration = duration,
                                           pe_FileSize = FileSize req,
                                           pe_Throughput = calculateThroughput (FileSize req) duration,
                                           pe_Concurrency = 0, pe_ResourceUsage = [],
                                           pe_Threshold = FloatOfInt (Milliseconds (Timeout (c_config c))),
                                           pe_Additional = None\<rparr> w2)
                                       (\<lambda>w3. (Returned (Inr res), w3))
                                   else (Returned (Inr res), w2))))))"

definition DeleteFileWithAudit ::
  "'b AuditableRustFSClient \<Rightarrow> clock \<Rightarrow> string \<Rightarrow> string \<Rightarrow> 'b world
     \<Rightarrow> err option outcome \<times> 'b world" where
  "DeleteFileWithAudit c clk path userID w =
     (let preDeleteMetadata = empty_metadata
            \<lparr>m_FilePath := path, m_BucketName := BucketName (c_config c),
             m_AccessTime := Some (metaTime clk)\<rparr>
      in case DeleteFile (c_client c) path (w_backend w) of
           (er, b') \<Rightarrow>
             (let w1 = w\<lparr>w_backend := b', w_calls := w_calls w @ [CallDeleteFile path]\<rparr>;
                  duration = afterCall clk - startTime clk
              in case er of
                   Some x \<Rightarrow>
                     and_then (LogFileDelete (c_auditLogger c) userID path preDeleteMetadata (Some x) w1)
                       (\<lambda>w'. (Returned (Some (wrapError x ''DELETE_FAILED'')), w'))
                 | None \<Rightarrow>
                     and_then (LogFileDelete (c_auditLogger c) userID path preDeleteMetadata None w1)
                       (\<lambda>w2. if duration > go_quot (Timeout (c_config c)) 2 then
                                and_then
                                  (LogPerformanceEvent (c_auditLogger c) userID ''upload_slow''
                                     \<lparr>pe_Operation = ''delete'', pe_Duration = duration,
                                      pe_FileSize = 0, pe_Throughput = FloatLit ''0'',
                                      pe_Concurrency = 0, pe_ResourceUsage = [],
                                      pe_Threshold =
                                        FloatOfInt (Milliseconds (go_quot (Timeout (c_config c)) 2)),
                                      pe_Additional = None\<rparr> w2)
                                  (\<lambda>w3. (Returned None, w3))
                              else (Returned None, w2))))"

text \<open>The decorator's \<^verbatim>\<open>GetFileInfo\<close>, which takes the actor from the context.\<close>

definition GetFileInfoAudited ::
  "'b AuditableRustFSClient \<Rightarrow> clock \<Rightarrow> ctx_values \<Rightarrow> string \<Rightarrow> 'b world
     \<Rightarrow> (err + FileInfo option) outcome \<times> 'b world" where
  "GetFileInfoAudited c clk ctx path w =
     (let userID = extractUserID ctx;
          preAccessMetadata = empty_metadata
            \<lparr>m_FilePath := path, m_BucketName := BucketName (c_config c),
             m_AccessTime := Some (metaTime clk)\<rparr>
      in case GetFileInfo (c_client c) path (w_backend w) of
           ((result, er), b') \<Rightarrow>
             (let w1 = w\<lparr>w_backend := b', w_calls := w_calls w @ [CallGetFileInfo path]\<rparr>;
                  duration = afterCall clk - startTime clk
              in case er of
                   Some x \<Rightarrow>
                     and_then (LogFileAccess (c_auditLogger c) userID path preAccessMetadata (Some x) w1)
                       (\<lambda>w'. (Returned (Inl (wrapError x ''GET_INFO_FAILED'')), w'))
                 | None \<Rightarrow>
                     and_then (LogFileAccess (c_auditLogger c) userID path preAccessMetadata None w1)
                       (\<lambda>w2. if duration > go_quot (Timeout (c_config c)) 4 then
                                and_then
                                  (LogPerformanceEvent (c_auditLogger c) userID ''upload_slow''
                                     \<lparr>pe_Operation = ''get_info'', pe_Duration = duration,
                                      pe_FileSize = 0, pe_Throughput = FloatLit ''0'',
                                      pe_Concurrency = 0, pe_ResourceUsage = [],
                                      pe_Threshold =
                                        FloatOfInt (Milliseconds (go_quot (Timeout (c_config c)) 4)),
                                      pe_Additional = None\<rparr> w2)
                                  (\<lambda>w3. (Returned (Inr result), w3))
                              else (Returned (Inr result), w2))))"

text \<open>
  \<^verbatim>\<open>HealthCheck\<close>; \<open>today\<close> is \<^verbatim>\<open>time.Now().Format("20060102")\<close>. The result is the
  returned error, \<open>None\<close> for healthy.
\<close>

definition HealthCheck ::
  "'b AuditableRustFSClient \<Rightarrow> string \<Rightarrow> 'b world \<Rightarrow> err option \<times> 'b world" where
  "HealthCheck c today w =
     (case CheckHealth (c_client c) of
        Some healthChecker \<Rightarrow>
          (case healthChecker (w_backend w) of
             (er, b') \<Rightarrow> (er, w\<lparr>w_backend := b', w_calls := w_calls w @ [CallCheckHealth]\<rparr>))
      | None \<Rightarrow>
          (case GetFileInfo (c_client c) (''health-check-'' @ today) (w_backend w) of
             ((result, er), b') \<Rightarrow>
               (let w1 = w\<lparr>w_backend := b',
                           w_calls := w_calls w @ [CallGetFileInfo (''health-check-'' @ today)]\<rparr>
                in if er \<noteq> None then (None, w1) else (None, w1))))"


section \<open>Concrete clients, requests and worlds\<close>

definition demo_config :: RustFSConfig where
  "demo_config = \<lparr>BucketName = ''default'', Timeout = 30000000000,
                   MaxFileSize = 104857600, AllowedTypes = [''image/*'']\<rparr>"

definition negative_limit_config :: RustFSConfig where
  "negative_limit_config = \<lparr>BucketName = ''default'', Timeout = 30000000000,
                   MaxFileSize = - 1, AllowedTypes = [''image/*'']\<rparr>"

definition snapshot_request :: "int \<Rightarrow> UploadRequest" where
  "snapshot_request n = \<lparr>Filename = ''snapshot.png'', ContentType = ''image/png'', FileSize = n,
       BucketPath = ''snapshots/2024/01/01'', Metadata = Some Map.empty\<rparr>"

definition pdf_request :: "int \<Rightarrow> UploadRequest" where
  "pdf_request n = \<lparr>Filename = ''report.pdf'', ContentType = ''application/pdf'', FileSize = n,
       BucketPath = ''reports/2024/01/01'', Metadata = Some Map.empty\<rparr>"

definition store_backend :: "nat FileStorage" where
  "store_backend =
     \<lparr>UploadFile = (\<lambda>req b.
         ((Some \<lparr>Path = BucketPath req, URL = ''http://mock-storage.com/'' @ BucketPath req,
                 Size = FileSize req, r_ContentType = [], ETag = ''etag-1'',
                 r_LastModified = 0, r_Metadata = Metadata req\<rparr>, None), Suc b)),
      DeleteFile = (\<lambda>path b. (None, Suc b)),
      GetFileURL = (\<lambda>path. ''http://mock-storage.com/'' @ path),
      GetFileInfo = (\<lambda>path b. ((None, Some (ErrorString (''file not found: '' @ path))), Suc b)),
      CheckHealth = Some (\<lambda>b. (Some (ErrorString ''health check failed''), Suc b))\<rparr>"

definition unreachable_backend :: "nat FileStorage" where
  "unreachable_backend =
     \<lparr>UploadFile = (\<lambda>req b. ((None, Some (ErrorString ''connection refused'')), Suc b)),
      DeleteFile = (\<lambda>path b. (Some (ErrorString ''connection refused''), Suc b)),
      GetFileURL = (\<lambda>path. ''http://localhost:8080/'' @ path),
      GetFileInfo = (\<lambda>path b. ((None, Some (ErrorString ''connection refused'')), Suc b)),
      CheckHealth = None\<rparr>"

definition sink_logger :: RustFSAuditLogger where
  "sink_logger = \<lparr>hasSink = True, l_service = ''rustfs-client'', l_config = None\<rparr>"


definition audited_client :: "nat FileStorage \<Rightarrow> RustFSAuditLogger \<Rightarrow> nat AuditableRustFSClient" where
  "audited_client b l = \<lparr>c_client = b, c_auditLogger = Some l,
                          c_config = demo_config, c_service = ''site-service''\<rparr>"

definition fresh_world :: "nat world" where
  "fresh_world = \<lparr>w_backend = 0, w_calls = [], w_events = []\<rparr>"

definition quick_clock :: clock where
  "quick_clock = \<lparr>startTime = 0, metaTime = 1000, afterCall = 2000, logTime = 3000\<rparr>"

text \<open>The events a call added to the sink, given the worlds before and after it.\<close>

definition new_events :: "'b world \<Rightarrow> 'b world \<Rightarrow> AuditEvent list" where
  "new_events w w' = drop (length (w_events w)) (w_events w')"

text \<open>The message of the size rejection of \<^verbatim>\<open>validateUploadRequest\<close>.\<close>

definition size_error :: "RustFSConfig \<Rightarrow> UploadRequest \<Rightarrow> string" where
  "size_error cfg req = ''file size '' @ show_int (FileSize req)
                @ '' exceeds maximum allowed size '' @ show_int (MaxFileSize cfg)"

text \<open>From \<open>w\<close> to \<open>w'\<close> the sink only gained events, all of them with actor \<open>u\<close>.\<close>

definition actor_ok :: "string \<Rightarrow> 'b world \<Rightarrow> 'b world \<Rightarrow> bool" where
  "actor_ok u w w' \<longleftrightarrow>
     (\<exists>evs. w_events w' = w_events w @ evs \<and> (\<forall>ev\<in>set evs. UserID ev = u))"

definition alice_ctx :: ctx_values where
  "alice_ctx = [''user_id'' \<mapsto> CString ''alice'']"

definition blank_ctx :: ctx_values where
  "blank_ctx = [''user_id'' \<mapsto> CString []]"


section \<open>The executor: reaching an iteration\<close>

lemma retry_loop_advance:
  assumes "reaches e fn s m" and "int m \<le> MaxAttempts config"
  shows "\<exists>le td. retry_loop e fn config 0 None 0 s 0
                 = retry_loop e fn config m le td (op_state fn s m) m
               \<and> (0 < m \<longrightarrow> le = op_result fn s (m - 1) \<and> le \<noteq> None)"
  using assms
proof (induction m)
  case 0
  then show ?case by auto
next
  case (Suc m)
  have r: "reaches e fn s m" using Suc.prems(1) by (simp add: reaches_def)
  have le: "int m \<le> MaxAttempts config" using Suc.prems(2) by simp
  from Suc.IH[OF r le] obtain le0 td where
    eq: "retry_loop e fn config 0 None 0 s 0 = retry_loop e fn config m le0 td (op_state fn s m) m"
    by blast
  have c: "ctxErr e m = None" and d: "ctxDone e m = None"
    using Suc.prems(1) by (simp_all add: reaches_def)
  obtain er where f: "fn (op_state fn s m) = (Some er, op_state fn s (Suc m))"
    and er: "op_result fn s m = Some er"
    using Suc.prems(1) by (cases "fn (op_state fn s m)") (auto simp: reaches_def op_result_def)
  have lt: "int m < MaxAttempts config" using Suc.prems(2) by simp
  define td' where "td' = (if int m < MaxAttempts config - 1
       then wrap64 (td + delayOf e m)
       else td)"
  have "retry_loop e fn config m le0 td (op_state fn s m) m
           = retry_loop e fn config (Suc m) (Some er) td' (op_state fn s (Suc m)) (Suc m)"
    by (subst retry_loop.simps) (simp add: c d f lt Let_def td'_def del: op_state.simps)
  then show ?case using eq er by auto
qed

lemma retry_loop_exhausted:
  "\<not> int a < MaxAttempts config \<Longrightarrow>
   retry_loop e fn config a le td s c =
     (\<lparr>Success = False, Attempts = MaxAttempts config, LastError = le, TotalDelay = td\<rparr>, s, c)"
  by (subst retry_loop.simps) simp

lemma never_cancelled_reaches:
  "never_cancelled e \<Longrightarrow> \<forall>j<m. op_result fn s j \<noteq> None \<Longrightarrow> reaches e fn s m"
  by (simp add: never_cancelled_def reaches_def)

section \<open>The executor: outcomes\<close>

text \<open>
  C1. With a context that is never cancelled and a budget of \<open>n \<ge> 1\<close> attempts, an operation
  that fails on each of its \<open>n\<close> invocations makes the executor return \<open>Success = False\<close>,
  \<open>Attempts = n\<close> and, as \<open>LastError\<close>, the error of the last invocation; the operation is
  invoked \<open>n\<close> times.
\<close>

theorem always_failing_exhausts_budget:
  assumes nc: "never_cancelled e"
    and n: "1 \<le> MaxAttempts config"
    and fails: "\<forall>j < nat (MaxAttempts config). op_result fn s j \<noteq> None"
  shows "case RetryWithBackoffWithContext e fn (Some config) s of
           (r, s', calls) \<Rightarrow>
             \<not> Success r \<and> Attempts r = MaxAttempts config
             \<and> LastError r = op_result fn s (nat (MaxAttempts config) - 1)
             \<and> LastError r \<noteq> None
             \<and> calls = nat (MaxAttempts config) \<and> s' = op_state fn s calls"
proof -
  define n where "n = nat (MaxAttempts config)"
  have r: "reaches e fn s n" using nc fails unfolding n_def by (rule never_cancelled_reaches)
  have le: "int n \<le> MaxAttempts config" using n by (simp add: n_def)
  from retry_loop_advance[OF r le] obtain le0 td where
    eq: "retry_loop e fn config 0 None 0 s 0 = retry_loop e fn config n le0 td (op_state fn s n) n"
    and l: "le0 = op_result fn s (n - 1)" "le0 \<noteq> None"
    using n by (auto simp: n_def)
  have "\<not> int n < MaxAttempts config" using n by (simp add: n_def)
  then have "retry_loop e fn config n le0 td (op_state fn s n) n =
     (\<lparr>Success = False, Attempts = MaxAttempts config, LastError = le0, TotalDelay = td\<rparr>,
      op_state fn s n, n)"
    by (rule retry_loop_exhausted)
  with eq have "RetryWithBackoffWithContext e fn (Some config) s =
     (\<lparr>Success = False, Attempts = MaxAttempts config, LastError = le0, TotalDelay = td\<rparr>,
      op_state fn s n, n)"
    by (simp add: RetryWithBackoffWithContext_def)
  then show ?thesis using l by (simp add: n_def)
qed

theorem always_failing_witness:
  "case RetryWithBackoffWithContext background always_fails (Some three_attempts) 0 of
     (r, s', calls) \<Rightarrow> \<not> Success r \<and> Attempts r = 3
        \<and> LastError r = Some (ErrorString ''connection refused'') \<and> calls = 3"
  using always_failing_exhausts_budget [of background three_attempts always_fails 0]
  by (simp add: never_cancelled_def background_def op_result_def always_fails_def
        three_attempts_def split: prod.splits)

text \<open>
  C2, as the code has it. When the run gets to the top of iteration \<open>k - 1\<close> (the first
  \<open>k - 1\<close> invocations fail and no cancellation is observed before them or in the waits
  after them), the context is not cancelled at that point and invocation \<open>k \<le> n\<close>
  succeeds, the executor returns \<open>Success = True\<close> and \<open>Attempts = k\<close>; the operation has
  then been invoked exactly \<open>k\<close> times and its state is the one the \<open>k\<close>-th invocation
  left. What the context does afterwards plays no part.
\<close>

theorem success_on_kth_attempt:
  assumes k: "1 \<le> k" "int k \<le> MaxAttempts config"
    and r: "reaches e fn s (k - 1)"
    and live: "ctxErr e (k - 1) = None"
    and ok: "op_result fn s (k - 1) = None"
  shows "case RetryWithBackoffWithContext e fn (Some config) s of
           (r, s', calls) \<Rightarrow>
             Success r \<and> Attempts r = int k \<and> LastError r = None
             \<and> calls = k \<and> s' = op_state fn s k"
proof -
  obtain m where km: "k = Suc m" using k(1) by (cases k) auto
  have r': "reaches e fn s m" using r km by simp
  have le: "int m \<le> MaxAttempts config" using k km by simp
  from retry_loop_advance[OF r' le] obtain le0 td where
    eq: "retry_loop e fn config 0 None 0 s 0
           = retry_loop e fn config m le0 td (op_state fn s m) m"
    by blast
  have c: "ctxErr e m = None" using live km by simp
  have lt: "int m < MaxAttempts config" using k km by simp
  have f: "fn (op_state fn s m) = (None, op_state fn s (Suc m))"
    using ok km by (cases "fn (op_state fn s m)") (simp add: op_result_def)
  have "retry_loop e fn config m le0 td (op_state fn s m) m
          = (\<lparr>Success = True, Attempts = int m + 1, LastError = None, TotalDelay = td\<rparr>,
             op_state fn s (Suc m), Suc m)"
    by (subst retry_loop.simps) (simp add: c lt f del: op_state.simps)
  with eq have "RetryWithBackoffWithContext e fn (Some config) s
          = (\<lparr>Success = True, Attempts = int m + 1, LastError = None, TotalDelay = td\<rparr>,
             op_state fn s (Suc m), Suc m)"
    by (simp add: RetryWithBackoffWithContext_def)
  then show ?thesis using km by simp
qed

theorem success_on_kth_attempt_witness:
  "case RetryWithBackoffWithContext cancelled_later fails_once (Some three_attempts) 0 of
     (r, s', calls) \<Rightarrow> Success r \<and> Attempts r = 2 \<and> LastError r = None \<and> calls = 2 \<and> s' = 2"
proof -
  have k: "(1::nat) \<le> 2" "int 2 \<le> MaxAttempts three_attempts"
    by (simp_all add: three_attempts_def)
  have r: "reaches cancelled_later fails_once 0 (2 - 1)"
    by (simp add: reaches_def cancelled_later_def op_result_def fails_once_def)
  have live: "ctxErr cancelled_later (2 - 1) = None"
    by (simp add: cancelled_later_def)
  have ok: "op_result fails_once 0 (2 - 1) = None"
    by (simp add: op_result_def fails_once_def)
  show ?thesis
    using success_on_kth_attempt [OF k r live ok]
    by (simp add: numeral_2_eq_2 fails_once_def split: prod.splits)
qed

text \<open>
  C2 as stated (for every context) fails: with three attempts and an operation that fails
  once and then succeeds, a context that is done during the first wait makes the executor
  return \<open>Success = False\<close> and \<open>Attempts = 1\<close> after a single invocation.
\<close>

theorem success_pre_empted_counterexample:
  "op_result fails_once 0 0 \<noteq> None \<and> op_result fails_once 0 1 = None
   \<and> 2 \<le> MaxAttempts three_attempts
   \<and> RetryWithBackoffWithContext cancelled_in_wait fails_once (Some three_attempts) 0
       = (\<lparr>Success = False, Attempts = 1,
           LastError = Some (ErrorString ''context deadline exceeded''),
           TotalDelay = 1000\<rparr>, 1, 1)"
proof -
  have "RetryWithBackoffWithContext cancelled_in_wait fails_once (Some three_attempts) 0
       = (\<lparr>Success = False, Attempts = 1,
           LastError = Some (ErrorString ''context deadline exceeded''),
           TotalDelay = 1000\<rparr>, 1, 1)"
    unfolding RetryWithBackoffWithContext_def
    by (subst retry_loop.simps)
       (simp add: cancelled_in_wait_def fails_once_def three_attempts_def wrap64_def Let_def)
  then show ?thesis
    by (simp add: op_result_def fails_once_def three_attempts_def)
qed



section \<open>The executor: the result invariant\<close>





section \<open>Content types\<close>

lemma HasSuffix_iff: "HasSuffix s x \<longleftrightarrow> (\<exists>t. s = t @ x)"
proof
  assume "HasSuffix s x"
  then have "s = take (length s - length x) s @ x"
    by (metis HasSuffix_def append_take_drop_id)
  then show "\<exists>t. s = t @ x" ..
next
  assume "\<exists>t. s = t @ x"
  then show "HasSuffix s x" by (auto simp: HasSuffix_def)
qed

lemma HasPrefix_iff: "HasPrefix s p \<longleftrightarrow> (\<exists>r. s = p @ r)"
proof
  assume "HasPrefix s p"
  then have "s = p @ drop (length p) s"
    by (metis HasPrefix_def append_take_drop_id)
  then show "\<exists>r. s = p @ r" ..
next
  assume "\<exists>r. s = p @ r"
  then show "HasPrefix s p" by (auto simp: HasPrefix_def)
qed

lemma TrimSuffix_append: "TrimSuffix (t @ x) x = t"
  by (simp add: TrimSuffix_def HasSuffix_def)

lemma matchContentType_spec: "matchContentType p ct \<longleftrightarrow> spec_match p ct"
proof (cases "p = ct")
  case True
  then show ?thesis by (simp add: matchContentType_def spec_match_def)
next
  case False
  show ?thesis
  proof (cases "HasSuffix p ''/*''")
    case True
    then obtain t where p: "p = t @ ''/*''" by (auto simp: HasSuffix_iff)
    have "matchContentType p ct \<longleftrightarrow> HasPrefix ct (t @ ''/'')"
      using False True TrimSuffix_append[of t "''/*''"] by (simp add: matchContentType_def p)
    also have "\<dots> \<longleftrightarrow> (\<exists>rest. ct = t @ ''/'' @ rest)"
      by (simp add: HasPrefix_iff)
    also have "\<dots> \<longleftrightarrow> spec_match p ct"
      using False by (auto simp: spec_match_def p)
    finally show ?thesis .
  next
    case nosuf: False
    then have "\<not> matchContentType p ct" using False by (simp add: matchContentType_def)
    moreover have "\<not> spec_match p ct"
      using False nosuf by (auto simp: spec_match_def HasSuffix_iff)
    ultimately show ?thesis by simp
  qed
qed

lemma allowed_loop_iff: "allowed_loop ps ct \<longleftrightarrow> (\<exists>p\<in>set ps. matchContentType p ct)"
  by (induction ps) auto

text \<open>
  C7. A content type is allowed exactly when some allowed pattern equals it or is \<open>t/*\<close>
  with the content type starting with \<open>t/\<close>; with the single pattern \<open>image/*\<close>,
  \<open>image/png\<close> is accepted and \<open>application/pdf\<close> is rejected.
\<close>

theorem content_type_matching:
  "(IsAllowedType cfg ct \<longleftrightarrow> (\<exists>p\<in>set (AllowedTypes cfg). spec_match p ct))
   \<and> (AllowedTypes cfg = [''image/*''] \<longrightarrow>
        IsAllowedType cfg ''image/png'' \<and> \<not> IsAllowedType cfg ''application/pdf'')"
proof -
  have a: "IsAllowedType cfg ct \<longleftrightarrow> (\<exists>p\<in>set (AllowedTypes cfg). spec_match p ct)"
    by (simp add: IsAllowedType_def allowed_loop_iff matchContentType_spec)
  have b: "matchContentType ''image/*'' ''image/png''"
    by (simp add: matchContentType_def HasSuffix_def HasPrefix_def TrimSuffix_def)
  have c: "\<not> matchContentType ''image/*'' ''application/pdf''"
    by (simp add: matchContentType_def HasSuffix_def HasPrefix_def TrimSuffix_def)
  show ?thesis using a b c by (simp add: IsAllowedType_def)
qed

theorem content_type_matching_witness:
  "AllowedTypes demo_config = [''image/*''] \<and> IsAllowedType demo_config ''image/png''
   \<and> \<not> IsAllowedType demo_config ''application/pdf''"
proof -
  have h: "AllowedTypes demo_config = [''image/*'']" by (simp add: demo_config_def)
  with content_type_matching [of demo_config "''image/png''"] show ?thesis by blast
qed

section \<open>Upload validation\<close>

lemma valid_snapshot_name: "IsValidFilename ''snapshot.png''"
  by (simp add: IsValidFilename_def invalidChars_def reservedNames_def ToUpper_def
        to_upper_char_def TrimSuffix_def HasSuffix_def filepath_Ext_def Let_def)

text \<open>
  C10, as the code has it. \<^verbatim>\<open>validateUploadRequest\<close> returns its size rejection exactly
  when \<open>FileSize\<close> is strictly greater than \<open>MaxFileSize\<close>. A request with an allowed
  content type and a valid file name passes exactly when \<open>FileSize \<le> MaxFileSize\<close>: so it
  passes with \<open>FileSize = MaxFileSize\<close>, and with a zero or negative \<open>FileSize\<close> when
  \<open>MaxFileSize\<close> is not negative.
\<close>

theorem size_check_strict:
  "(validateUploadRequest cfg req = Some (ErrorString (size_error cfg req))
      \<longleftrightarrow> MaxFileSize cfg < FileSize req)
   \<and> (IsAllowedType cfg (ContentType req) \<and> IsValidFilename (Filename req) \<longrightarrow>
        (validateUploadRequest cfg req = None \<longleftrightarrow> FileSize req \<le> MaxFileSize cfg)
        \<and> (FileSize req = MaxFileSize cfg \<longrightarrow> validateUploadRequest cfg req = None)
        \<and> (FileSize req \<le> 0 \<and> 0 \<le> MaxFileSize cfg \<longrightarrow> validateUploadRequest cfg req = None))"
  by (auto simp: validateUploadRequest_def size_error_def)

theorem size_check_strict_witness:
  "validateUploadRequest demo_config (snapshot_request 104857600) = None
   \<and> validateUploadRequest demo_config (snapshot_request 0) = None
   \<and> validateUploadRequest demo_config (snapshot_request 104857601) \<noteq> None"
proof -
  have t: "IsAllowedType demo_config (ContentType (snapshot_request n))" for n
    by (simp add: snapshot_request_def demo_config_def IsAllowedType_def matchContentType_def
          HasSuffix_def HasPrefix_def TrimSuffix_def)
  have f: "IsValidFilename (Filename (snapshot_request n))" for n
    by (simp add: snapshot_request_def valid_snapshot_name)
  have m: "MaxFileSize demo_config = 104857600" by (simp add: demo_config_def)
  have s: "FileSize (snapshot_request n) = n" for n by (simp add: snapshot_request_def)
  show ?thesis
    using size_check_strict [of demo_config "snapshot_request 104857600"]
          size_check_strict [of demo_config "snapshot_request 0"]
          size_check_strict [of demo_config "snapshot_request 104857601"]
    by (simp add: t f m s)
qed

text \<open>
  C10 as stated (for every configuration) fails: under a limit of \<open>-1\<close> a request of
  size zero is rejected for its size, and a request whose size equals the limit is still
  rejected when its content type is not allowed.
\<close>

theorem zero_size_rejected_counterexample:
  "IsAllowedType negative_limit_config (ContentType (snapshot_request 0))
   \<and> IsValidFilename (Filename (snapshot_request 0))
   \<and> validateUploadRequest negative_limit_config (snapshot_request 0)
       = Some (ErrorString ''file size 0 exceeds maximum allowed size -1'')
   \<and> FileSize (pdf_request 104857600) = MaxFileSize demo_config
   \<and> validateUploadRequest demo_config (pdf_request 104857600)
       = Some (ErrorString ''content type application/pdf is not allowed'')"
proof -
  have t: "IsAllowedType negative_limit_config (ContentType (snapshot_request 0))"
    by (simp add: snapshot_request_def negative_limit_config_def IsAllowedType_def
          matchContentType_def HasSuffix_def HasPrefix_def TrimSuffix_def)
  have f: "IsValidFilename (Filename (snapshot_request 0))"
    by (simp add: snapshot_request_def valid_snapshot_name)
  have z: "validateUploadRequest negative_limit_config (snapshot_request 0)
       = Some (ErrorString ''file size 0 exceeds maximum allowed size -1'')"
    by (simp add: validateUploadRequest_def negative_limit_config_def snapshot_request_def
          show_int_def show_nat.simps digit_char_def)
  have p: "validateUploadRequest demo_config (pdf_request 104857600)
       = Some (ErrorString ''content type application/pdf is not allowed'')"
    by (simp add: validateUploadRequest_def demo_config_def pdf_request_def IsAllowedType_def
          matchContentType_def HasSuffix_def HasPrefix_def TrimSuffix_def)
  have e: "FileSize (pdf_request 104857600) = MaxFileSize demo_config"
    by (simp add: demo_config_def pdf_request_def)
  show ?thesis using t f z p e by simp
qed

section \<open>Uploads over the size limit\<close>




section \<open>Actor identity\<close>

lemma actor_ok_refl: "actor_ok u w w"
  by (simp add: actor_ok_def)

lemma actor_ok_backend: "actor_ok u w (w\<lparr>w_backend := b, w_calls := cs\<rparr>)"
  by (simp add: actor_ok_def)

lemma actor_ok_trans: "actor_ok u w w1 \<Longrightarrow> actor_ok u w1 w2 \<Longrightarrow> actor_ok u w w2"
  by (auto simp: actor_ok_def)

lemma actor_ok_new_events: "actor_ok u w w' \<Longrightarrow> \<forall>ev\<in>set (new_events w w'). UserID ev = u"
  by (auto simp: actor_ok_def new_events_def)

lemma actor_ok_logEvent:
  "UserID ev = u \<Longrightarrow> actor_ok u w w0 \<Longrightarrow> actor_ok u w (logEvent l ev w0)"
  by (auto simp: actor_ok_def logEvent_def)

lemma actor_ok_return: "actor_ok u w w0 \<Longrightarrow> actor_ok u w (snd (Returned x, w0))"
  by simp

lemma actor_ok_and_then:
  assumes "actor_ok u w (snd p)"
    and "\<And>w1. actor_ok u w w1 \<Longrightarrow> actor_ok u w (snd (k w1))"
  shows "actor_ok u w (snd (and_then p k))"
proof (cases p)
  case (Pair out w1)
  show ?thesis
  proof (cases out)
    case Panic
    then show ?thesis using assms(1) Pair by simp
  next
    case (Returned x)
    then show ?thesis using assms Pair by simp
  qed
qed

lemma actor_ok_log_file_event:
  "actor_ok u w w0 \<Longrightarrow> actor_ok u w (snd (log_file_event okT failT errT lg u rid md er w0))"
  by (cases lg) (simp_all add: log_file_event_def Let_def actor_ok_logEvent)

lemma actor_ok_LogStorageError:
  "actor_ok u w w0 \<Longrightarrow> actor_ok u w (snd (LogStorageError lg u operation md w0))"
  by (cases lg) (simp_all add: LogStorageError_def Let_def actor_ok_logEvent)

lemma actor_ok_LogPerformanceEvent:
  "actor_ok u w w0 \<Longrightarrow> actor_ok u w (snd (LogPerformanceEvent lg u et md w0))"
  by (cases lg) (simp_all add: LogPerformanceEvent_def Let_def actor_ok_logEvent)

lemma actor_ok_logUploadError:
  "actor_ok u w w0 \<Longrightarrow> actor_ok u w (snd (logUploadError c clk u md er w0))"
  by (simp add: logUploadError_def actor_ok_LogStorageError)

lemma actor_ok_logUploadSuccess:
  "actor_ok u w w0 \<Longrightarrow> actor_ok u w (snd (logUploadSuccess c clk u md res d w0))"
  by (simp add: logUploadSuccess_def LogFileUpload_def actor_ok_log_file_event
        split: option.splits)

lemma actor_ok_slow:
  "actor_ok u w w0 \<Longrightarrow>
   actor_ok u w (snd (if slow then and_then (LogPerformanceEvent lg u et md w0)
                                     (\<lambda>w3. (Returned x, w3))
                      else (Returned y, w0)))"
  by (simp add: actor_ok_and_then actor_ok_LogPerformanceEvent)

lemma actor_ok_Upload: "actor_ok u w (snd (UploadFileWithAudit c clk req u w))"
proof (cases "validateUploadRequest (c_config c) req")
  case (Some er)
  then show ?thesis
    by (simp add: UploadFileWithAudit_def Let_def actor_ok_and_then actor_ok_logUploadError
          actor_ok_refl)
next
  case None
  obtain result er b' where up: "UploadFile (c_client c) req (w_backend w) = ((result, er), b')"
    by (metis prod.exhaust)
  show ?thesis
  proof (cases er)
    case (Some x)
    then show ?thesis using None up
      by (simp add: UploadFileWithAudit_def Let_def actor_ok_and_then actor_ok_logUploadError
            actor_ok_backend)
  next
    case ok: None
    have inner: "actor_ok u w
       (snd (case result of None \<Rightarrow> (Panic, w1)
             | Some res \<Rightarrow>
                 if slow then and_then (LogPerformanceEvent lg u et (md res) w1)
                                (\<lambda>w3. (Returned (Inr res), w3))
                 else (Returned (Inr res), w1)))"
      if "actor_ok u w w1" for w1 slow lg et md
      using that by (cases result) (simp_all add: actor_ok_slow)
    show ?thesis using None up ok
      by (simp add: UploadFileWithAudit_def Let_def)
         (intro actor_ok_and_then actor_ok_logUploadSuccess actor_ok_backend inner)
  qed
qed

lemma actor_ok_Delete: "actor_ok u w (snd (DeleteFileWithAudit c clk path u w))"
proof -
  obtain er b' where d: "DeleteFile (c_client c) path (w_backend w) = (er, b')"
    by (metis prod.exhaust)
  show ?thesis
  proof (cases er)
    case (Some x)
    then show ?thesis using d
      by (simp add: DeleteFileWithAudit_def Let_def LogFileDelete_def actor_ok_and_then
            actor_ok_log_file_event actor_ok_backend)
  next
    case None
    then show ?thesis using d
      by (simp add: DeleteFileWithAudit_def Let_def LogFileDelete_def)
         (intro actor_ok_and_then actor_ok_log_file_event actor_ok_backend actor_ok_slow)
  qed
qed

lemma actor_ok_GetFileInfo:
  "actor_ok (extractUserID ctx) w (snd (GetFileInfoAudited c clk ctx path w))"
proof -
  obtain result er b' where d: "GetFileInfo (c_client c) path (w_backend w) = ((result, er), b')"
    by (metis prod.exhaust)
  show ?thesis
  proof (cases er)
    case (Some x)
    then show ?thesis using d
      by (simp add: GetFileInfoAudited_def Let_def LogFileAccess_def actor_ok_and_then
            actor_ok_log_file_event actor_ok_backend)
  next
    case None
    then show ?thesis using d
      by (simp add: GetFileInfoAudited_def Let_def LogFileAccess_def)
         (intro actor_ok_and_then actor_ok_log_file_event actor_ok_backend actor_ok_slow)
  qed
qed

lemma GetFileInfo_emits:
  assumes "c_auditLogger c = Some l" "hasSink l"
  shows "new_events w (snd (GetFileInfoAudited c clk ctx path w)) \<noteq> []"
proof -
  obtain result er b' where d: "GetFileInfo (c_client c) path (w_backend w) = ((result, er), b')"
    by (metis prod.exhaust)
  show ?thesis using d assms
    by (cases er)
       (simp_all add: GetFileInfoAudited_def Let_def LogFileAccess_def log_file_event_def
          LogPerformanceEvent_def logEvent_def new_events_def)
qed

lemma Delete_emits:
  assumes "c_auditLogger c = Some l" "hasSink l"
  shows "new_events w (snd (DeleteFileWithAudit c clk path u w)) \<noteq> []"
proof -
  obtain er b' where d: "DeleteFile (c_client c) path (w_backend w) = (er, b')"
    by (metis prod.exhaust)
  show ?thesis using d assms
    by (cases er)
       (simp_all add: DeleteFileWithAudit_def Let_def LogFileDelete_def log_file_event_def
          LogPerformanceEvent_def logEvent_def new_events_def)
qed

text \<open>
  C8, as the code has it. \<^verbatim>\<open>extractUserID\<close> returns the \<open>user_id\<close> of the context when that
  is a string and \<open>system\<close> otherwise, so it is empty only when the context holds the empty
  string. Every event that \<^verbatim>\<open>UploadFileWithAudit\<close> and \<^verbatim>\<open>DeleteFileWithAudit\<close> emit
  carries the actor they were given, and every event of the decorator's \<^verbatim>\<open>GetFileInfo\<close>
  carries \<^verbatim>\<open>extractUserID\<close> of its context. With a logger that has a sink, a delete and
  a lookup emit at least one event each.
\<close>

theorem actor_identity_resolution:
  "(\<forall>ident. ctx ''user_id'' = Some (CString ident) \<longrightarrow> extractUserID ctx = ident)
   \<and> ((\<forall>ident. ctx ''user_id'' \<noteq> Some (CString ident)) \<longrightarrow> extractUserID ctx = ''system'')
   \<and> (ctx ''user_id'' \<noteq> Some (CString []) \<longrightarrow> extractUserID ctx \<noteq> [])
   \<and> (\<forall>ev \<in> set (new_events w (snd (UploadFileWithAudit c clk req userID w))).
         UserID ev = userID)
   \<and> (\<forall>ev \<in> set (new_events w (snd (DeleteFileWithAudit c clk path userID w))).
         UserID ev = userID)
   \<and> (\<forall>ev \<in> set (new_events w (snd (GetFileInfoAudited c clk ctx path w))).
         UserID ev = extractUserID ctx)
   \<and> (\<forall>l. c_auditLogger c = Some l \<and> hasSink l \<longrightarrow>
         new_events w (snd (DeleteFileWithAudit c clk path userID w)) \<noteq> []
         \<and> new_events w (snd (GetFileInfoAudited c clk ctx path w)) \<noteq> [])"
proof -
  have a: "\<forall>ident. ctx ''user_id'' = Some (CString ident) \<longrightarrow> extractUserID ctx = ident"
    by (simp add: extractUserID_def)
  have b: "(\<forall>ident. ctx ''user_id'' \<noteq> Some (CString ident)) \<longrightarrow> extractUserID ctx = ''system''"
    by (auto simp: extractUserID_def split: option.splits ctxval.splits)
  have c: "ctx ''user_id'' \<noteq> Some (CString []) \<longrightarrow> extractUserID ctx \<noteq> []"
    by (auto simp: extractUserID_def split: option.splits ctxval.splits)
  have d: "\<forall>ev \<in> set (new_events w (snd (UploadFileWithAudit c clk req userID w))).
         UserID ev = userID"
    by (rule actor_ok_new_events[OF actor_ok_Upload])
  have e: "\<forall>ev \<in> set (new_events w (snd (DeleteFileWithAudit c clk path userID w))).
         UserID ev = userID"
    by (rule actor_ok_new_events[OF actor_ok_Delete])
  have f: "\<forall>ev \<in> set (new_events w (snd (GetFileInfoAudited c clk ctx path w))).
         UserID ev = extractUserID ctx"
    by (rule actor_ok_new_events[OF actor_ok_GetFileInfo])
  have g: "\<forall>l. c_auditLogger c = Some l \<and> hasSink l \<longrightarrow>
         new_events w (snd (DeleteFileWithAudit c clk path userID w)) \<noteq> []
         \<and> new_events w (snd (GetFileInfoAudited c clk ctx path w)) \<noteq> []"
    using Delete_emits GetFileInfo_emits by blast
  show ?thesis using a b c d e f g by blast
qed

theorem actor_identity_witness:
  "alice_ctx ''user_id'' = Some (CString ''alice'') \<and> extractUserID alice_ctx = ''alice''
   \<and> length (new_events fresh_world
        (snd (GetFileInfoAudited (audited_client store_backend sink_logger) quick_clock
               alice_ctx ''snapshots/a.png'' fresh_world))) = 1
   \<and> UserID (hd (new_events fresh_world
        (snd (GetFileInfoAudited (audited_client store_backend sink_logger) quick_clock
               alice_ctx ''snapshots/a.png'' fresh_world)))) = ''alice''"
proof -
  let ?evs = "new_events fresh_world
        (snd (GetFileInfoAudited (audited_client store_backend sink_logger) quick_clock
               alice_ctx ''snapshots/a.png'' fresh_world))"
  have c: "alice_ctx ''user_id'' = Some (CString ''alice'')"
    by (simp add: alice_ctx_def)
  have n: "length ?evs = 1"
    by (simp add: new_events_def GetFileInfoAudited_def audited_client_def store_backend_def
          sink_logger_def fresh_world_def LogFileAccess_def log_file_event_def logEvent_def
          Let_def)
  then have "hd ?evs \<in> set ?evs" by (cases ?evs) simp_all
  with actor_identity_resolution
         [of alice_ctx fresh_world "audited_client store_backend sink_logger" quick_clock
             "snapshot_request 1" "''alice''" "''snapshots/a.png''"]
       c n
  show ?thesis by simp
qed

text \<open>
  C8 as stated (no event has an empty actor) fails: an upload audited for the empty actor
  emits an event whose actor is empty, and a context holding the empty string as
  \<open>user_id\<close> resolves to the empty actor.
\<close>

theorem empty_actor_counterexample:
  "length (w_events (snd (UploadFileWithAudit (audited_client store_backend sink_logger)
                quick_clock (snapshot_request 104857601) [] fresh_world))) = 1
   \<and> UserID (hd (w_events (snd (UploadFileWithAudit (audited_client store_backend sink_logger)
                quick_clock (snapshot_request 104857601) [] fresh_world)))) = []
   \<and> blank_ctx ''user_id'' = Some (CString [])
   \<and> extractUserID blank_ctx = []"
  by (simp add: UploadFileWithAudit_def validateUploadRequest_def audited_client_def
        demo_config_def snapshot_request_def logUploadError_def LogStorageError_def Let_def
        logEvent_def add_all_def add_config_def sink_logger_def fresh_world_def
        extractUserID_def blank_ctx_def)

section \<open>Health check\<close>

text \<open>
  C9, as the code has it. When the backend has a \<^verbatim>\<open>CheckHealth\<close>, \<^verbatim>\<open>HealthCheck\<close> invokes it
  and returns its verdict. Otherwise it looks up \<open>health-check-\<close> followed by the date
  with \<^verbatim>\<open>GetFileInfo\<close> and reports healthy whatever the lookup returns.
\<close>

theorem health_check_verdict:
  "(\<forall>h. CheckHealth (c_client c) = Some h \<longrightarrow>
        fst (HealthCheck c today w) = fst (h (w_backend w))
        \<and> w_calls (snd (HealthCheck c today w)) = w_calls w @ [CallCheckHealth])
   \<and> (CheckHealth (c_client c) = None \<longrightarrow>
        fst (HealthCheck c today w) = None
        \<and> w_calls (snd (HealthCheck c today w))
             = w_calls w @ [CallGetFileInfo (''health-check-'' @ today)])"
  by (auto simp: HealthCheck_def Let_def split: option.splits prod.splits)

theorem health_check_verdict_witness:
  "fst (HealthCheck (audited_client store_backend sink_logger) ''20240101'' fresh_world)
     = Some (ErrorString ''health check failed'')
   \<and> w_calls (snd (HealthCheck (audited_client unreachable_backend sink_logger) ''20240101''
         fresh_world)) = [CallGetFileInfo ''health-check-20240101'']"
proof -
  have a: "CheckHealth (c_client (audited_client store_backend sink_logger))
             = Some (\<lambda>b. (Some (ErrorString ''health check failed''), Suc b))"
    by (simp add: audited_client_def store_backend_def)
  have b: "CheckHealth (c_client (audited_client unreachable_backend sink_logger)) = None"
    by (simp add: audited_client_def unreachable_backend_def)
  have fw: "w_calls fresh_world = []" by (simp add: fresh_world_def)
  show ?thesis
    using health_check_verdict
            [of "audited_client store_backend sink_logger" "''20240101''" fresh_world]
          health_check_verdict
            [of "audited_client unreachable_backend sink_logger" "''20240101''" fresh_world]
    by (simp add: a b fw)
qed

text \<open>
  C9 as stated (a transport failure of the probe indicates unhealthy) fails: for a backend
  without \<^verbatim>\<open>CheckHealth\<close> whose lookup fails with \<open>connection refused\<close>, the health check
  reports healthy.
\<close>

theorem probe_failure_reported_healthy_counterexample:
  "CheckHealth (c_client (audited_client unreachable_backend sink_logger)) = None
   \<and> snd (fst (GetFileInfo unreachable_backend ''health-check-20240101'' 0))
       = Some (ErrorString ''connection refused'')
   \<and> fst (HealthCheck (audited_client unreachable_backend sink_logger) ''20240101'' fresh_world)
       = None"
  by (simp add: HealthCheck_def audited_client_def unreachable_backend_def fresh_world_def)

end
